theory Spec2Isabelle
  imports Complex_Main "HOL-Library.AList"
begin

section \<open>Scores\<close>

text \<open>
  The scripts compute and store Python floats. A finite float is modelled by the rational
  number that the source expression denotes in exact arithmetic (IEEE rounding is not
  modelled); \<open>float('inf')\<close> is the separate value \<open>Infinity\<close>.
\<close>

datatype score = Finite rat | Infinity

datatype py_error = TypeError

section \<open>The lookup engines\<close>

subsection \<open>pac\_diagnostic\_engine.py (v1.0)\<close>



subsection \<open>pac\_diagnostic\_engine\_v2\_1.py\<close>

definition GAP_BIN_SMALL :: rat where
  "GAP_BIN_SMALL = 18"

definition GAP_BIN_LARGE :: rat where
  "GAP_BIN_LARGE = 22"

text \<open>\<open>categorize_gap\<close>, the same in every script that bins gaps, on an integer gap.\<close>

definition categorize_gap :: "int \<Rightarrow> string" where
  "categorize_gap gap_g_n =
     (if of_int gap_g_n < GAP_BIN_SMALL then ''Small''
      else if of_int gap_g_n \<ge> GAP_BIN_LARGE then ''Large''
      else ''Medium'')"

definition MESSINESS_MAP_V2_1 :: "((int \<times> string) \<times> score) list" where
  "MESSINESS_MAP_V2_1 =
    [((0, ''Small''), Finite (1468 / 10000)), ((0, ''Large''), Finite (1272 / 10000)),
     ((2, ''Small''), Finite (329259 / 10000)), ((2, ''Large''), Finite (333726 / 10000)),
     ((4, ''Small''), Finite (244134 / 10000)), ((4, ''Medium''), Finite (212283 / 10000)),
     ((4, ''Large''), Finite (236586 / 10000)),
     ((6, ''Small''), Finite (34541 / 10000)), ((6, ''Medium''), Finite (31766 / 10000)),
     ((6, ''Large''), Finite (31887 / 10000)),
     ((8, ''Small''), Finite (319059 / 10000)), ((8, ''Large''), Finite (308648 / 10000)),
     ((10, ''Small''), Finite (237988 / 10000)), ((10, ''Medium''), Finite (213690 / 10000)),
     ((10, ''Large''), Finite (223325 / 10000)),
     ((12, ''Small''), Finite (40594 / 10000)), ((12, ''Medium''), Finite (35175 / 10000)),
     ((12, ''Large''), Finite (33869 / 10000)),
     ((14, ''Small''), Finite (229096 / 10000)), ((14, ''Medium''), Finite (210282 / 10000)),
     ((14, ''Large''), Finite (224500 / 10000)),
     ((16, ''Small''), Finite (229340 / 10000)), ((16, ''Medium''), Finite (211565 / 10000)),
     ((16, ''Large''), Finite (225176 / 10000)),
     ((18, ''Small''), Finite (40784 / 10000)), ((18, ''Medium''), Finite (34875 / 10000)),
     ((18, ''Large''), Finite (34216 / 10000)),
     ((20, ''Small''), Finite (237749 / 10000)), ((20, ''Medium''), Finite (213136 / 10000)),
     ((20, ''Large''), Finite (223276 / 10000)),
     ((22, ''Small''), Finite (319118 / 10000)), ((22, ''Large''), Finite (308288 / 10000)),
     ((24, ''Small''), Finite (34560 / 10000)), ((24, ''Medium''), Finite (31808 / 10000)),
     ((24, ''Large''), Finite (32031 / 10000)),
     ((26, ''Small''), Finite (244130 / 10000)), ((26, ''Medium''), Finite (213267 / 10000)),
     ((26, ''Large''), Finite (234702 / 10000)),
     ((28, ''Small''), Finite (329994 / 10000)), ((28, ''Large''), Finite (333786 / 10000))]"

definition IMMUNITY_P5_SCORE :: score where
  "IMMUNITY_P5_SCORE = Finite 0"

definition IMMUNITY_P4_SCORE :: score where
  "IMMUNITY_P4_SCORE = Finite (1 / 10000)"

text \<open>
  The gap argument is an integer or \<open>None\<close>. Python 3 raises \<open>TypeError\<close> when
  \<open>categorize_gap\<close> compares \<open>None\<close> with a float, which is the only raise the function
  can reach.
\<close>

definition get_messiness_score_v2_1 :: "int \<Rightarrow> int option \<Rightarrow> py_error + score" where
  "get_messiness_score_v2_1 anchor_sn gap_g_n =
     (if anchor_sn mod 2310 = 0 then Inr IMMUNITY_P5_SCORE
      else if anchor_sn mod 210 = 0 then Inr IMMUNITY_P4_SCORE
      else
        let residue = anchor_sn mod 30
        in case gap_g_n of
             None \<Rightarrow> Inl TypeError
           | Some g \<Rightarrow>
               (let gap_category = categorize_gap g
                in case map_of MESSINESS_MAP_V2_1 (residue, gap_category) of
                     None \<Rightarrow> Inr Infinity
                   | Some score \<Rightarrow> Inr score))"

subsection \<open>v13\_recursive\_signature.py: the loaded Mod 6 map\<close>

text \<open>
  The module global \<open>MESSINESS_MAP_V_MOD6\<close> is \<open>None\<close> until \<open>load_engine_data\<close>
  has stored a dictionary in it; the scoring functions read it, so the model passes it as
  an argument.
\<close>

definition get_vmod6_score :: "(int \<rightharpoonup> score) option \<Rightarrow> int \<Rightarrow> score" where
  "get_vmod6_score MESSINESS_MAP_V_MOD6 anchor_sn =
     (case MESSINESS_MAP_V_MOD6 of
        None \<Rightarrow> Infinity
      | Some m \<Rightarrow> (case m (anchor_sn mod 6) of None \<Rightarrow> Infinity | Some v \<Rightarrow> v))"

definition get_messiness_score_v11_weighted ::
  "(int \<rightharpoonup> score) option \<Rightarrow> int \<Rightarrow> int \<Rightarrow> score" where
  "get_messiness_score_v11_weighted MESSINESS_MAP_V_MOD6 anchor_sn gap_g_n =
     (case MESSINESS_MAP_V_MOD6 of
        None \<Rightarrow> Infinity
      | Some m \<Rightarrow>
          (case (case m (anchor_sn mod 6) of None \<Rightarrow> Infinity | Some v \<Rightarrow> v) of
             Infinity \<Rightarrow> Infinity
           | Finite score_mod6 \<Rightarrow> Finite ((score_mod6 + 1) * of_int gap_g_n)))"

section \<open>The frequency-map builder\<close>

subsection \<open>Loading the prime file\<close>

text \<open>
  \<open>load_primes_from_file\<close> prints a fatal error and returns \<open>(None, None)\<close> in two
  cases, which the caller answers by returning before it scans or writes anything. The
  two exits are the two \<open>Inl\<close> values. The file is its list of integers, or \<open>None\<close>
  when it does not exist; the configuration constants \<open>MAX_PRIME_PAIRS_TO_TEST\<close> and
  \<open>START_INDEX\<close> are arguments.
\<close>

datatype load_error = MissingInputError | InsufficientDataError

definition load_primes_from_file ::
  "nat \<Rightarrow> nat \<Rightarrow> int list option \<Rightarrow> load_error + (int list \<times> int set)" where
  "load_primes_from_file MAX_PRIME_PAIRS_TO_TEST START_INDEX file =
     (case file of
        None \<Rightarrow> Inl MissingInputError
      | Some prime_list \<Rightarrow>
          let prime_set = set prime_list;
              required_primes = MAX_PRIME_PAIRS_TO_TEST + START_INDEX + 10
          in if length prime_list < required_primes then Inl InsufficientDataError
             else Inr (prime_list, prime_set))"

subsection \<open>The bounded nearest-prime search\<close>

text \<open>
  The \<open>while True\<close> loop of the scan, entered with \<open>search_dist = 1\<close>. It leaves
  \<open>min_distance_k = 0\<close> when \<open>search_dist\<close> passes 2000 without a hit.
\<close>

function find_min_distance_k :: "int set \<Rightarrow> int \<Rightarrow> int \<Rightarrow> int" where
  "find_min_distance_k prime_set anchor_S_n search_dist =
     (if anchor_S_n - search_dist \<in> prime_set then search_dist
      else if anchor_S_n + search_dist \<in> prime_set then search_dist
      else if search_dist + 1 > 2000 then 0
      else find_min_distance_k prime_set anchor_S_n (search_dist + 1))"
  by pat_completeness auto
termination
  by (relation "measure (\<lambda>(prime_set, anchor_S_n, search_dist). nat (2001 - search_dist))") auto

declare find_min_distance_k.simps [simp del]

text \<open>
  What the loop body does with the result of the search: \<open>continue\<close> when it is 0,
  otherwise \<open>is_k_composite = (min_distance_k > 1) and (min_distance_k not in prime_set)\<close>
  decides whether a failure is recorded.
\<close>

datatype verdict = Skipped | Clean | Law_I_Failure

definition law_I_verdict :: "int set \<Rightarrow> int \<Rightarrow> verdict" where
  "law_I_verdict prime_set anchor_S_n =
     (let min_distance_k = find_min_distance_k prime_set anchor_S_n 1
      in if min_distance_k = 0 then Skipped
         else
           let is_k_composite = (min_distance_k > 1 \<and> min_distance_k \<notin> prime_set)
           in if is_k_composite then Law_I_Failure else Clean)"

subsection \<open>The scan\<close>

text \<open>
  \<open>defaultdict(int)\<close>: reading a missing key gives 0, as \<open>.get(key, 0)\<close> does.
\<close>

definition get0 :: "('k \<rightharpoonup> int) \<Rightarrow> 'k \<Rightarrow> int" where
  "get0 d k = (case d k of None \<Rightarrow> 0 | Some c \<Rightarrow> c)"

definition incr :: "('k \<rightharpoonup> int) \<Rightarrow> 'k \<Rightarrow> ('k \<rightharpoonup> int)" where
  "incr d k = d(k \<mapsto> get0 d k + 1)"

text \<open>
  The accumulators of the loop. The scripts differ only in the bucket key: the single-axis
  scripts (test-8, test-11) use \<open>anchor_S_n % M\<close>; the two-axis scripts (test-10,
  2D-Messiness-Map) use the residue and the gap category, held there in a dictionary of
  dictionaries \<open>anchor_map[residue][gap_category]\<close> whose outer keys are all residues, which
  is a dictionary on the pairs.
\<close>

record 'k scan_state =
  total_law_I_failures :: int
  failure_counts :: "'k \<rightharpoonup> int"
  anchor_counts :: "'k \<rightharpoonup> int"

definition initial_state :: "'k scan_state" where
  "initial_state =
     \<lparr>total_law_I_failures = 0, failure_counts = Map.empty, anchor_counts = Map.empty\<rparr>"

definition bucket_mod :: "int \<Rightarrow> int \<Rightarrow> int \<Rightarrow> int" where
  "bucket_mod M anchor_S_n gap_g_n = anchor_S_n mod M"

definition bucket_mod_gap :: "int \<Rightarrow> int \<Rightarrow> int \<Rightarrow> int \<times> string" where
  "bucket_mod_gap M anchor_S_n gap_g_n = (anchor_S_n mod M, categorize_gap gap_g_n)"

text \<open>One iteration of \<open>for i in range(START_INDEX, loop_end_index)\<close>.\<close>

definition scan_step ::
  "(int \<Rightarrow> int \<Rightarrow> 'k) \<Rightarrow> int list \<Rightarrow> int set \<Rightarrow> nat \<Rightarrow> 'k scan_state \<Rightarrow> 'k scan_state" where
  "scan_step bucket prime_list prime_set i s =
     (let p_n = prime_list ! i;
          p_n_plus_1 = prime_list ! (i + 1);
          anchor_S_n = p_n + p_n_plus_1;
          gap_g_n = p_n_plus_1 - p_n;
          residue = bucket anchor_S_n gap_g_n;
          s1 = s\<lparr>anchor_counts := incr (anchor_counts s) residue\<rparr>
      in case law_I_verdict prime_set anchor_S_n of
           Skipped \<Rightarrow> s1
         | Clean \<Rightarrow> s1
         | Law_I_Failure \<Rightarrow>
             s1\<lparr>total_law_I_failures := total_law_I_failures s1 + 1,
                failure_counts := incr (failure_counts s1) residue\<rparr>)"

definition scan_pairs ::
  "(int \<Rightarrow> int \<Rightarrow> 'k) \<Rightarrow> int list \<Rightarrow> int set \<Rightarrow> nat \<Rightarrow> nat \<Rightarrow> 'k scan_state" where
  "scan_pairs bucket prime_list prime_set MAX_PRIME_PAIRS_TO_TEST START_INDEX =
     (let loop_end_index = MAX_PRIME_PAIRS_TO_TEST + START_INDEX
      in fold (scan_step bucket prime_list prime_set) [START_INDEX ..< loop_end_index]
           initial_state)"

subsection \<open>Failure rates\<close>

definition failure_rate :: "'k scan_state \<Rightarrow> 'k \<Rightarrow> score" where
  "failure_rate s key =
     (let failures = get0 (failure_counts s) key;
          total_anchors = get0 (anchor_counts s) key
      in if total_anchors > 0 then Finite (of_int failures / of_int total_anchors * 100)
         else Infinity)"

text \<open>
  The dictionary that is written out, in insertion order: \<open>AList.update\<close> replaces the
  value of a key that is present and appends a new key, as assignment to a \<open>dict\<close> does.
  Single axis: \<open>for residue in range(M)\<close>.
\<close>

definition messiness_scores :: "int \<Rightarrow> int scan_state \<Rightarrow> (int \<times> score) list" where
  "messiness_scores M s =
     fold (\<lambda>residue d. AList.update residue (failure_rate s residue) d) [0 .. M - 1] []"

text \<open>
  test-10: \<open>for residue in range(6)\<close>, odd residues skipped by \<open>continue\<close>, then
  \<open>for category in ["Small", "Medium", "Large"]\<close>.
\<close>

definition messiness_scores_v_mod6_gap ::
  "(int \<times> string) scan_state \<Rightarrow> ((int \<times> string) \<times> score) list" where
  "messiness_scores_v_mod6_gap s =
     fold (\<lambda>residue d.
             if residue mod 2 \<noteq> 0 then d
             else fold (\<lambda>category d'.
                          AList.update (residue, category) (failure_rate s (residue, category)) d')
                    [''Small'', ''Medium'', ''Large''] d)
       [0 .. 5] []"

subsection \<open>The scripts\<close>

text \<open>
  The result is the dictionary handed to \<open>json.dump\<close>; \<open>Inl\<close> is the return taken before
  the scan, after which no file is written. The index reads \<open>prime_list[i]\<close> and
  \<open>prime_list[i+1]\<close> are in range whenever the load succeeds (lemma \<open>scan_indices_in_range\<close>).
\<close>

definition run_residue_analysis ::
  "int \<Rightarrow> nat \<Rightarrow> nat \<Rightarrow> int list option \<Rightarrow> load_error + (int \<times> score) list" where
  "run_residue_analysis M MAX_PRIME_PAIRS_TO_TEST START_INDEX file =
     (case load_primes_from_file MAX_PRIME_PAIRS_TO_TEST START_INDEX file of
        Inl e \<Rightarrow> Inl e
      | Inr (prime_list, prime_set) \<Rightarrow>
          Inr (messiness_scores M
                 (scan_pairs (bucket_mod M) prime_list prime_set
                    MAX_PRIME_PAIRS_TO_TEST START_INDEX)))"

definition run_mod210_residue_analysis ::
  "nat \<Rightarrow> nat \<Rightarrow> int list option \<Rightarrow> load_error + (int \<times> score) list" where
  "run_mod210_residue_analysis = run_residue_analysis 210"


definition run_mod6_gap_analysis ::
  "nat \<Rightarrow> nat \<Rightarrow> int list option \<Rightarrow> load_error + ((int \<times> string) \<times> score) list" where
  "run_mod6_gap_analysis MAX_PRIME_PAIRS_TO_TEST START_INDEX file =
     (case load_primes_from_file MAX_PRIME_PAIRS_TO_TEST START_INDEX file of
        Inl e \<Rightarrow> Inl e
      | Inr (prime_list, prime_set) \<Rightarrow>
          Inr (messiness_scores_v_mod6_gap
                 (scan_pairs (bucket_mod_gap 6) prime_list prime_set
                    MAX_PRIME_PAIRS_TO_TEST START_INDEX)))"

section \<open>Persistence of the map\<close>

text \<open>
  \<open>str(k)\<close> of an integer: its decimal digits, after a minus sign when it is negative.
\<close>

definition digit_char :: "nat \<Rightarrow> char" where
  "digit_char d = char_of (48 + d)"

fun digits_of_nat :: "nat \<Rightarrow> string" where
  "digits_of_nat n =
     (if n < 10 then [digit_char n] else digits_of_nat (n div 10) @ [digit_char (n mod 10)])"

declare digits_of_nat.simps [simp del]

definition py_str :: "int \<Rightarrow> string" where
  "py_str n = (if n < 0 then CHR ''-'' # digits_of_nat (nat (- n)) else digits_of_nat (nat n))"

text \<open>
  \<open>int(s)\<close> on the strings that \<open>str\<close> can write: an optional minus sign and then
  decimal digits; \<open>None\<close> stands for \<open>ValueError\<close>. (Python's \<open>int\<close> also accepts
  surrounding whitespace, a plus sign and underscores between digits, which \<open>str\<close> never
  writes; those are not modelled.)
\<close>

definition is_digit :: "char \<Rightarrow> bool" where
  "is_digit c = (48 \<le> (of_char c :: nat) \<and> (of_char c :: nat) \<le> 57)"

fun nat_of_digits :: "nat \<Rightarrow> string \<Rightarrow> nat option" where
  "nat_of_digits acc [] = Some acc"
| "nat_of_digits acc (c # cs) =
     (if is_digit c then nat_of_digits (acc * 10 + (of_char c - 48)) cs else None)"

definition py_int :: "string \<Rightarrow> int option" where
  "py_int s =
     (case s of
        [] \<Rightarrow> None
      | c # cs \<Rightarrow>
          if c = CHR ''-''
          then (if cs = [] then None else map_option (\<lambda>n. - int n) (nat_of_digits 0 cs))
          else map_option int (nat_of_digits 0 s))"

text \<open>
  The values of the written object. \<open>json.dump\<close> writes a finite float as a number and
  \<open>float('inf')\<close> as the token \<open>Infinity\<close>, and \<open>json.load\<close> reads both back. The digits
  of a number are the json library's business: a number token is identified with the float
  it denotes, since Python reads back exactly the float it wrote.
\<close>

datatype json_value = JNumber rat | JInfinity

definition json_of_float :: "score \<Rightarrow> json_value" where
  "json_of_float v = (case v of Finite r \<Rightarrow> JNumber r | Infinity \<Rightarrow> JInfinity)"

definition float_of_json :: "json_value \<Rightarrow> score" where
  "float_of_json j = (case j of JNumber r \<Rightarrow> Finite r | JInfinity \<Rightarrow> Infinity)"

text \<open>
  \<open>json.dump(messiness_scores, f)\<close>: the members in the order of the dictionary, each
  integer key written as \<open>str(key)\<close>.
\<close>

definition json_dump :: "(int \<times> score) list \<Rightarrow> (string \<times> json_value) list" where
  "json_dump d = map (\<lambda>(k, v). (py_str k, json_of_float v)) d"

text \<open>
  \<open>json.load(f)\<close>: a dictionary with the member names as keys; a repeated name keeps its
  first position and its last value.
\<close>

definition json_load :: "(string \<times> json_value) list \<Rightarrow> (string \<times> score) list" where
  "json_load doc = fold (\<lambda>(k, j) d. AList.update k (float_of_json j) d) doc []"

text \<open>
  \<open>load_engine_data\<close>: \<open>{int(k): v for k, v in json.load(f).items()}\<close> stored in the module
  global. The result is the new value of the global: \<open>None\<close> when the file does not
  exist or when some key is not an integer literal, the two cases in which the function
  returns \<open>False\<close>.
\<close>

definition load_engine_data ::
  "(string \<times> json_value) list option \<Rightarrow> (int \<times> score) list option" where
  "load_engine_data file =
     (case file of
        None \<Rightarrow> None
      | Some doc \<Rightarrow>
          fold (\<lambda>(k, v) acc.
                  case acc of
                    None \<Rightarrow> None
                  | Some d \<Rightarrow>
                      (case py_int k of
                         None \<Rightarrow> None
                       | Some residue \<Rightarrow> Some (AList.update residue v d)))
            (json_load doc) (Some []))"

section \<open>Primality\<close>


section \<open>Test data\<close>

text \<open>The first 100 primes, as the head of the prime file.\<close>

definition first_100_primes :: "int list" where
  "first_100_primes =
    [2, 3, 5, 7, 11, 13, 17, 19, 23, 29, 31, 37, 41, 43, 47, 53, 59, 61, 67, 71,
     73, 79, 83, 89, 97, 101, 103, 107, 109, 113, 127, 131, 137, 139, 149, 151, 157, 163, 167, 173,
     179, 181, 191, 193, 197, 199, 211, 223, 227, 229, 233, 239, 241, 251, 257, 263, 269, 271, 277, 281,
     283, 293, 307, 311, 313, 317, 331, 337, 347, 349, 353, 359, 367, 373, 379, 383, 389, 397, 401, 409,
     419, 421, 431, 433, 439, 443, 449, 457, 461, 463, 467, 479, 487, 491, 499, 503, 509, 521, 523, 541]"

text \<open>
  A file of twelve primes that are not consecutive primes: the first pair sums to 20016 and
  no entry lies within 2000 of that anchor.
\<close>

definition sparse_primes :: "int list" where
  "sparse_primes =
    [10007, 10009, 30011, 30013, 30029, 30047, 30059, 30071, 30089, 30091, 30097, 30103]"

section \<open>Basic facts\<close>

lemma get0_incr: "get0 (incr d k) k' = (if k' = k then get0 d k + 1 else get0 d k')"
  by (simp add: get0_def incr_def)

lemma get0_empty: "get0 Map.empty k = 0"
  by (simp add: get0_def)

lemma length_first_100_primes: "length first_100_primes = 100"
  by (simp add: first_100_primes_def)

text \<open>Every index the scan reads is inside the list once the load has succeeded.\<close>

lemma scan_indices_in_range:
  "load_primes_from_file MAX_PRIME_PAIRS_TO_TEST START_INDEX file = Inr (prime_list, prime_set)
   \<Longrightarrow> i \<in> set [START_INDEX ..< MAX_PRIME_PAIRS_TO_TEST + START_INDEX]
   \<Longrightarrow> i < length prime_list \<and> i + 1 < length prime_list \<and> prime_set = set prime_list"
  by (auto simp: load_primes_from_file_def Let_def split: option.splits if_splits)

subsection \<open>The search\<close>

text \<open>No hit from \<open>search_dist\<close> up to 2000: the loop ends with 0.\<close>

lemma find_min_distance_k_no_hit:
  "\<forall>j. search_dist \<le> j \<and> j \<le> 2000 \<longrightarrow>
        anchor_S_n - j \<notin> prime_set \<and> anchor_S_n + j \<notin> prime_set
   \<Longrightarrow> search_dist \<le> 2000
   \<Longrightarrow> find_min_distance_k prime_set anchor_S_n search_dist = 0"
proof (induction prime_set anchor_S_n search_dist rule: find_min_distance_k.induct)
  case (1 prime_set anchor_S_n search_dist)
  have here: "anchor_S_n - search_dist \<notin> prime_set" "anchor_S_n + search_dist \<notin> prime_set"
    using "1.prems" by auto
  show ?case
  proof (cases "search_dist + 1 > 2000")
    case True
    with here show ?thesis by (simp add: find_min_distance_k.simps)
  next
    case False
    have "find_min_distance_k prime_set anchor_S_n (search_dist + 1) = 0"
      using "1.IH" [OF here False] "1.prems" False by auto
    with here False show ?thesis
      by (subst find_min_distance_k.simps) simp
  qed
qed



lemma sparse_search_exceeds: "find_min_distance_k (set sparse_primes) 20016 1 = 0"
  by (rule find_min_distance_k_no_hit) (auto simp: sparse_primes_def)

subsection \<open>One iteration\<close>

lemma scan_step_skipped:
  assumes "find_min_distance_k prime_set (prime_list ! i + prime_list ! (i + 1)) 1 = 0"
  shows "scan_step bucket prime_list prime_set i s =
           s\<lparr>anchor_counts := incr (anchor_counts s)
                (bucket (prime_list ! i + prime_list ! (i + 1))
                        (prime_list ! (i + 1) - prime_list ! i))\<rparr>"
  using assms by (simp add: scan_step_def law_I_verdict_def Let_def)

lemma sparse_anchor: "sparse_primes ! 0 + sparse_primes ! (0 + 1) = 20016"
  by (simp add: sparse_primes_def)

lemma sparse_step:
  "scan_step (bucket_mod 210) sparse_primes (set sparse_primes) 0 s =
     s\<lparr>anchor_counts := incr (anchor_counts s) 66\<rparr>"
proof -
  have "find_min_distance_k (set sparse_primes)
          (sparse_primes ! 0 + sparse_primes ! (0 + 1)) 1 = 0"
    unfolding sparse_anchor by (rule sparse_search_exceeds)
  from scan_step_skipped [OF this, of "bucket_mod 210" s] show ?thesis
    unfolding sparse_anchor by (simp add: bucket_mod_def)
qed

lemma scan_step_counts:
  "get0 (failure_counts s) k \<le> get0 (anchor_counts s) k \<Longrightarrow>
   get0 (failure_counts (scan_step bucket prime_list prime_set i s)) k
     \<le> get0 (anchor_counts (scan_step bucket prime_list prime_set i s)) k"
  by (auto simp: scan_step_def Let_def get0_incr split: verdict.splits)

lemma fold_scan_step_counts:
  "get0 (failure_counts s) k \<le> get0 (anchor_counts s) k \<Longrightarrow>
   get0 (failure_counts (fold (scan_step bucket prime_list prime_set) idxs s)) k
     \<le> get0 (anchor_counts (fold (scan_step bucket prime_list prime_set) idxs s)) k"
  by (induction idxs arbitrary: s) (simp_all add: scan_step_counts)

subsection \<open>The written dictionary\<close>

lemma update_fresh: "k \<notin> fst ` set d \<Longrightarrow> AList.update k v d = d @ [(k, v)]"
  by (induction d) auto

lemma fold_update_fresh:
  "distinct rs \<Longrightarrow> set rs \<inter> fst ` set d = {} \<Longrightarrow>
   fold (\<lambda>r d. AList.update r (f r) d) rs d = d @ map (\<lambda>r. (r, f r)) rs"
proof (induction rs arbitrary: d)
  case Nil
  then show ?case by simp
next
  case (Cons r rs)
  have fresh: "r \<notin> fst ` set d" using Cons.prems by auto
  have "set rs \<inter> fst ` set (d @ [(r, f r)]) = {}"
    using Cons.prems by auto
  with Cons.IH [of "d @ [(r, f r)]"] Cons.prems fresh show ?case
    by (simp add: update_fresh)
qed

lemma messiness_scores_eq:
  "messiness_scores M s = map (\<lambda>residue. (residue, failure_rate s residue)) [0 .. M - 1]"
  unfolding messiness_scores_def
  using fold_update_fresh [of "[0 .. M - 1]" "[]" "failure_rate s"] by simp

lemma map_of_tabulate:
  "map_of (map (\<lambda>r. (r, f r)) rs) r = (if r \<in> set rs then Some (f r) else None)"
  by (induction rs) auto

lemma map_of_messiness_scores:
  "map_of (messiness_scores M s) r = (if 0 \<le> r \<and> r < M then Some (failure_rate s r) else None)"
  by (auto simp: messiness_scores_eq map_of_tabulate)

lemma messiness_scores_v_mod6_gap_eq:
  "messiness_scores_v_mod6_gap s =
     [((0, ''Small''), failure_rate s (0, ''Small'')),
      ((0, ''Medium''), failure_rate s (0, ''Medium'')),
      ((0, ''Large''), failure_rate s (0, ''Large'')),
      ((2, ''Small''), failure_rate s (2, ''Small'')),
      ((2, ''Medium''), failure_rate s (2, ''Medium'')),
      ((2, ''Large''), failure_rate s (2, ''Large'')),
      ((4, ''Small''), failure_rate s (4, ''Small'')),
      ((4, ''Medium''), failure_rate s (4, ''Medium'')),
      ((4, ''Large''), failure_rate s (4, ''Large''))]"
proof -
  have "[0 .. 5] = [0, 1, 2, 3, 4, 5 :: int]"
    by (simp add: upto.simps)
  then show ?thesis
    by (simp add: messiness_scores_v_mod6_gap_def)
qed

subsection \<open>Evaluating a scan of the first 100 primes\<close>

lemma scan_step_cases:
  "scan_step bucket prime_list prime_set i s =
     (let anchor_S_n = prime_list ! i + prime_list ! (i + 1);
          residue = bucket anchor_S_n (prime_list ! (i + 1) - prime_list ! i)
      in if law_I_verdict prime_set anchor_S_n = Law_I_Failure
         then s\<lparr>total_law_I_failures := total_law_I_failures s + 1,
                failure_counts := incr (failure_counts s) residue,
                anchor_counts := incr (anchor_counts s) residue\<rparr>
         else s\<lparr>anchor_counts := incr (anchor_counts s) residue\<rparr>)"
  by (simp add: scan_step_def Let_def split: verdict.splits)

text \<open>
  The anchors of the pairs at indices 50 to 59. The nearest prime to 532 = 263 + 269 is
  523 or 541, at the composite offset 9; every other anchor here has a prime at offset 1
  or 5.
\<close>

lemma verdicts:
  "law_I_verdict (set first_100_primes) 472 = Clean"
  "law_I_verdict (set first_100_primes) 480 = Clean"
  "law_I_verdict (set first_100_primes) 492 = Clean"
  "law_I_verdict (set first_100_primes) 508 = Clean"
  "law_I_verdict (set first_100_primes) 520 = Clean"
  "law_I_verdict (set first_100_primes) 532 = Law_I_Failure"
  "law_I_verdict (set first_100_primes) 540 = Clean"
  "law_I_verdict (set first_100_primes) 548 = Clean"
  "law_I_verdict (set first_100_primes) 558 = Clean"
  "law_I_verdict (set first_100_primes) 564 = Clean"
  by (simp_all add: law_I_verdict_def find_min_distance_k.simps first_100_primes_def)

lemma nth_vals:
  "first_100_primes ! 50 = 233" "first_100_primes ! 51 = 239" "first_100_primes ! 52 = 241"
  "first_100_primes ! 53 = 251" "first_100_primes ! 54 = 257" "first_100_primes ! 55 = 263"
  "first_100_primes ! 56 = 269" "first_100_primes ! 57 = 271" "first_100_primes ! 58 = 277"
  "first_100_primes ! 59 = 281" "first_100_primes ! 60 = 283"
  by (simp_all add: first_100_primes_def)

lemma windows:
  "[50 ..< 6 + 50] = [50, 51, 52, 53, 54, 55 :: nat]"
  "[55 ..< 1 + 55] = [55 :: nat]"
  "[54 ..< 6 + 54] = [54, 55, 56, 57, 58, 59 :: nat]"
  by (simp_all add: upt_rec)

lemmas window_eval = scan_pairs_def windows scan_step_cases nth_vals verdicts bucket_mod_def
  bucket_mod_gap_def categorize_gap_def GAP_BIN_SMALL_def GAP_BIN_LARGE_def
  initial_state_def get0_incr get0_empty Let_def


subsection \<open>The engines\<close>








lemma v2_1_total: "\<exists>sc. get_messiness_score_v2_1 anchor_sn (Some g) = Inr sc"
  by (simp add: get_messiness_score_v2_1_def Let_def split: option.splits)


subsection \<open>Primes and composites around 532\<close>


subsection \<open>Keys as strings and back\<close>

lemma is_digit_digit_char: "d < 10 \<Longrightarrow> is_digit (digit_char d)"
  by (simp add: is_digit_def digit_char_def)

lemma of_char_digit_char: "d < 10 \<Longrightarrow> of_char (digit_char d) - 48 = d"
  by (simp add: digit_char_def)

lemma nat_of_digits_snoc:
  "nat_of_digits acc (cs @ [c]) =
     (case nat_of_digits acc cs of
        None \<Rightarrow> None
      | Some v \<Rightarrow> if is_digit c then Some (v * 10 + (of_char c - 48)) else None)"
  by (induction cs arbitrary: acc) auto

lemma nat_of_digits_digits_of_nat: "nat_of_digits 0 (digits_of_nat n) = Some n"
proof (induction n rule: digits_of_nat.induct)
  case (1 n)
  show ?case
  proof (cases "n < 10")
    case True
    then show ?thesis
      by (simp add: digits_of_nat.simps [of n] is_digit_digit_char of_char_digit_char)
  next
    case False
    have "n mod 10 < 10" by simp
    with False "1.IH" show ?thesis
      by (simp add: digits_of_nat.simps [of n] nat_of_digits_snoc is_digit_digit_char
          of_char_digit_char)
  qed
qed

lemma digits_of_nat_nonempty: "digits_of_nat n \<noteq> []"
  by (subst digits_of_nat.simps) simp

lemma hd_digits_of_nat: "is_digit (hd (digits_of_nat n))"
proof (induction n rule: digits_of_nat.induct)
  case (1 n)
  show ?case
  proof (cases "n < 10")
    case True
    then show ?thesis by (simp add: digits_of_nat.simps [of n] is_digit_digit_char)
  next
    case False
    with "1.IH" digits_of_nat_nonempty [of "n div 10"] show ?thesis
      by (simp add: digits_of_nat.simps [of n])
  qed
qed

lemma minus_not_digit: "\<not> is_digit CHR ''-''"
  by (simp add: is_digit_def)

lemma py_int_py_str: "py_int (py_str n) = Some n"
proof (cases "n < 0")
  case True
  then show ?thesis
    by (simp add: py_int_def py_str_def digits_of_nat_nonempty nat_of_digits_digits_of_nat)
next
  case False
  obtain c cs where cs: "digits_of_nat (nat n) = c # cs"
    using digits_of_nat_nonempty [of "nat n"] by (cases "digits_of_nat (nat n)") auto
  with hd_digits_of_nat [of "nat n"] minus_not_digit have "c \<noteq> CHR ''-''" by auto
  with False cs nat_of_digits_digits_of_nat [of "nat n"] show ?thesis
    by (simp add: py_int_def py_str_def)
qed

lemma py_str_small: "py_str 0 = ''0''" "py_str 1 = ''1''" "py_str 2 = ''2''" "py_str 209 = ''209''"
  by code_simp+

subsection \<open>Writing and reading the map\<close>

lemma float_of_json_of_float: "float_of_json (json_of_float v) = v"
  by (cases v) (simp_all add: float_of_json_def json_of_float_def)

lemma py_str_inj: "py_str a = py_str b \<Longrightarrow> a = b"
  by (metis py_int_py_str option.inject)

lemma json_load_fresh:
  "distinct (map fst d) \<Longrightarrow> py_str ` fst ` set d \<inter> fst ` set acc = {} \<Longrightarrow>
   fold (\<lambda>(k, j) d. AList.update k (float_of_json j) d) (json_dump d) acc
     = acc @ map (\<lambda>(k, v). (py_str k, v)) d"
proof (induction d arbitrary: acc)
  case Nil
  then show ?case by (simp add: json_dump_def)
next
  case (Cons kv d)
  obtain k v where kv: "kv = (k, v)" by (cases kv)
  have fresh: "py_str k \<notin> fst ` set acc"
    using Cons.prems(2) kv by auto
  have d: "distinct (map fst d)" and k: "k \<notin> fst ` set d"
    using Cons.prems(1) kv by auto
  have "py_str ` fst ` set d \<inter> fst ` set (acc @ [(py_str k, v)]) = {}"
    using Cons.prems(2) k kv by (auto dest: py_str_inj)
  from Cons.IH [OF d this] fresh show ?case
    by (simp add: kv json_dump_def update_fresh float_of_json_of_float)
qed

lemma json_load_json_dump:
  "distinct (map fst d) \<Longrightarrow> json_load (json_dump d) = map (\<lambda>(k, v). (py_str k, v)) d"
  unfolding json_load_def using json_load_fresh [of d "[]"] by simp

lemma parse_keys_fresh:
  "distinct (map fst d) \<Longrightarrow> fst ` set d \<inter> fst ` set acc = {} \<Longrightarrow>
   fold (\<lambda>(k, v) acc.
           case acc of
             None \<Rightarrow> None
           | Some d \<Rightarrow>
               (case py_int k of
                  None \<Rightarrow> None
                | Some residue \<Rightarrow> Some (AList.update residue v d)))
     (map (\<lambda>(k, v). (py_str k, v)) d) (Some acc)
     = Some (acc @ d)"
proof (induction d arbitrary: acc)
  case Nil
  then show ?case by simp
next
  case (Cons kv d)
  obtain k v where kv: "kv = (k, v)" by (cases kv)
  have fresh: "k \<notin> fst ` set acc"
    using Cons.prems(2) kv by auto
  have d: "distinct (map fst d)" and k: "k \<notin> fst ` set d"
    using Cons.prems(1) kv by auto
  have "fst ` set d \<inter> fst ` set (acc @ [(k, v)]) = {}"
    using Cons.prems(2) k kv by auto
  from Cons.IH [OF d this] fresh show ?case
    by (simp add: kv py_int_py_str update_fresh)
qed

lemma map_of_json_dump:
  "map_of (json_dump d) (py_str k) = map_option json_of_float (map_of d k)"
  by (induction d) (auto simp: json_dump_def dest: py_str_inj)

lemma load_engine_data_json_dump:
  "distinct (map fst d) \<Longrightarrow> load_engine_data (Some (json_dump d)) = Some d"
  using parse_keys_fresh [of d "[]"]
  by (simp add: load_engine_data_def json_load_json_dump)

lemma distinct_messiness_scores: "distinct (map fst (messiness_scores M s))"
  by (simp add: messiness_scores_eq comp_def)

section \<open>An anchor whose search exceeds the radius\<close>

text \<open>
  C1 as stated (the skipped index contributes to neither count) fails: on the file
  \<open>sparse_primes\<close> the first anchor is 20016, its search ends with 0, and residue bucket
  \<open>20016 mod 210 = 66\<close> has \<open>anchor_count = 1\<close> after the scan of that one pair.
\<close>

theorem skipped_index_counts_anchor_counterexample:
  "sparse_primes ! 0 + sparse_primes ! 1 = 20016 \<and>
   find_min_distance_k (set sparse_primes) 20016 1 = 0 \<and>
   get0 (anchor_counts
          (scan_pairs (bucket_mod 210) sparse_primes (set sparse_primes) 1 0)) 66 = 1"
  using sparse_search_exceeds
  by (simp add: scan_pairs_def sparse_step initial_state_def get0_incr get0_empty)
    (simp add: sparse_primes_def)

text \<open>
  C1, amended. When the bounded search of an index exceeds its radius (ends with
  \<open>min_distance_k = 0\<close>), the iteration has already incremented the bucket's
  \<open>anchor_count\<close> and does nothing else: the failure counts and the failure total are
  unchanged, and the scan goes on with that state.
\<close>

theorem skipped_index_counts_anchor_only:
  assumes "find_min_distance_k prime_set (prime_list ! i + prime_list ! (i + 1)) 1 = 0"
  shows "scan_step bucket prime_list prime_set i s =
           s\<lparr>anchor_counts := incr (anchor_counts s)
                (bucket (prime_list ! i + prime_list ! (i + 1))
                        (prime_list ! (i + 1) - prime_list ! i))\<rparr>
         \<and> get0 (anchor_counts (scan_step bucket prime_list prime_set i s))
               (bucket (prime_list ! i + prime_list ! (i + 1))
                       (prime_list ! (i + 1) - prime_list ! i))
             = get0 (anchor_counts s)
                 (bucket (prime_list ! i + prime_list ! (i + 1))
                         (prime_list ! (i + 1) - prime_list ! i)) + 1
         \<and> failure_counts (scan_step bucket prime_list prime_set i s) = failure_counts s
         \<and> total_law_I_failures (scan_step bucket prime_list prime_set i s)
             = total_law_I_failures s"
  by (simp add: scan_step_skipped [OF assms] get0_incr)

theorem skipped_index_counts_anchor_only_witness:
  "scan_step (bucket_mod 210) sparse_primes (set sparse_primes) 0 initial_state =
     initial_state\<lparr>anchor_counts := incr (anchor_counts initial_state) 66\<rparr>
   \<and> get0 (anchor_counts
            (scan_step (bucket_mod 210) sparse_primes (set sparse_primes) 0 initial_state)) 66
       = 1
   \<and> failure_counts
        (scan_step (bucket_mod 210) sparse_primes (set sparse_primes) 0 initial_state)
       = Map.empty"
proof -
  have h: "find_min_distance_k (set sparse_primes)
             (sparse_primes ! 0 + sparse_primes ! (0 + 1)) 1 = 0"
    unfolding sparse_anchor by (rule sparse_search_exceeds)
  have b: "bucket_mod 210 20016 (sparse_primes ! (0 + 1) - sparse_primes ! 0) = 66"
    by (simp add: bucket_mod_def)
  from skipped_index_counts_anchor_only [OF h, of "bucket_mod 210" initial_state]
  show ?thesis
    unfolding sparse_anchor b by (simp add: initial_state_def get0_incr get0_empty)
qed

section \<open>The size check on the prime file\<close>

text \<open>
  C7 as stated (a margin of the search radius plus 1, that is 2001) fails: with 100 primes,
  \<open>START_INDEX = 50\<close> and 6 pairs, \<open>50 + 6 + 2001\<close> exceeds the length, yet the load
  succeeds and the analysis runs.
\<close>

theorem lookahead_margin_counterexample:
  "length first_100_primes = 100 \<and> (50::nat) + 6 + (2000 + 1) > 100 \<and>
   load_primes_from_file 6 50 (Some first_100_primes)
     = Inr (first_100_primes, set first_100_primes) \<and>
   run_mod210_residue_analysis 6 50 (Some first_100_primes) \<noteq> Inl InsufficientDataError"
  by (simp add: run_mod210_residue_analysis_def run_residue_analysis_def
      load_primes_from_file_def Let_def length_first_100_primes)

text \<open>
  C7, amended. The margin is the constant 10: if the file holds fewer than
  \<open>MAX_PRIME_PAIRS_TO_TEST + START_INDEX + 10\<close> primes, the analysis returns the
  insufficient-data error before the scan and writes nothing; otherwise it scans and
  produces the dictionary of the final counts.
\<close>

theorem insufficient_data_margin_ten:
  "(length prime_list < MAX_PRIME_PAIRS_TO_TEST + START_INDEX + 10 \<longrightarrow>
      run_residue_analysis M MAX_PRIME_PAIRS_TO_TEST START_INDEX (Some prime_list)
        = Inl InsufficientDataError) \<and>
   (MAX_PRIME_PAIRS_TO_TEST + START_INDEX + 10 \<le> length prime_list \<longrightarrow>
      run_residue_analysis M MAX_PRIME_PAIRS_TO_TEST START_INDEX (Some prime_list)
        = Inr (messiness_scores M
                 (scan_pairs (bucket_mod M) prime_list (set prime_list)
                    MAX_PRIME_PAIRS_TO_TEST START_INDEX)))"
  by (simp add: run_residue_analysis_def load_primes_from_file_def Let_def)

theorem insufficient_data_margin_ten_witness:
  "run_residue_analysis 210 6 91 (Some first_100_primes) = Inl InsufficientDataError \<and>
   run_residue_analysis 210 6 50 (Some first_100_primes)
     = Inr (messiness_scores 210
              (scan_pairs (bucket_mod 210) first_100_primes (set first_100_primes) 6 50))"
  using insufficient_data_margin_ten [of first_100_primes 6 91 210]
    insufficient_data_margin_ten [of first_100_primes 6 50 210]
  by (simp add: length_first_100_primes)

section \<open>The failure criterion\<close>



section \<open>Failures never outnumber anchors\<close>

text \<open>
  C8. After any number \<open>n\<close> of iterations of the scan, and so in the final state, every
  bucket \<open>k\<close> has \<open>failure_count \<le> anchor_count\<close>; and within one iteration the failure
  count of a bucket grows by no more than its anchor count does in that same iteration.
\<close>

theorem failure_count_le_anchor_count:
  "get0 (failure_counts
      (fold (scan_step bucket prime_list prime_set)
         (take n [START_INDEX ..< MAX_PRIME_PAIRS_TO_TEST + START_INDEX]) initial_state)) k
    \<le> get0 (anchor_counts
      (fold (scan_step bucket prime_list prime_set)
         (take n [START_INDEX ..< MAX_PRIME_PAIRS_TO_TEST + START_INDEX]) initial_state)) k
   \<and> get0 (failure_counts
        (scan_pairs bucket prime_list prime_set MAX_PRIME_PAIRS_TO_TEST START_INDEX)) k
      \<le> get0 (anchor_counts
        (scan_pairs bucket prime_list prime_set MAX_PRIME_PAIRS_TO_TEST START_INDEX)) k
   \<and> get0 (failure_counts (scan_step bucket prime_list prime_set i s)) k
        - get0 (failure_counts s) k
      \<le> get0 (anchor_counts (scan_step bucket prime_list prime_set i s)) k
        - get0 (anchor_counts s) k"
proof -
  have init: "get0 (failure_counts (initial_state :: 'a scan_state)) k
      \<le> get0 (anchor_counts (initial_state :: 'a scan_state)) k"
    by (simp add: initial_state_def get0_empty)
  have step: "get0 (failure_counts (scan_step bucket prime_list prime_set i s)) k
        - get0 (failure_counts s) k
      \<le> get0 (anchor_counts (scan_step bucket prime_list prime_set i s)) k
        - get0 (anchor_counts s) k"
    by (auto simp: scan_step_def Let_def get0_incr split: verdict.splits)
  show ?thesis
    using fold_scan_step_counts [OF init] step by (simp add: scan_pairs_def Let_def)
qed

theorem failure_count_le_anchor_count_witness:
  "get0 (failure_counts
      (fold (scan_step (bucket_mod 30) first_100_primes (set first_100_primes))
         (take 3 [50 ..< 6 + 50]) initial_state)) 22
    \<le> get0 (anchor_counts
      (fold (scan_step (bucket_mod 30) first_100_primes (set first_100_primes))
         (take 3 [50 ..< 6 + 50]) initial_state)) 22
   \<and> get0 (failure_counts
        (scan_pairs (bucket_mod 30) first_100_primes (set first_100_primes) 6 50)) 22
      \<le> get0 (anchor_counts
        (scan_pairs (bucket_mod 30) first_100_primes (set first_100_primes) 6 50)) 22
   \<and> get0 (failure_counts
        (scan_pairs (bucket_mod 30) first_100_primes (set first_100_primes) 6 50)) 22 = 1
   \<and> get0 (anchor_counts
        (scan_pairs (bucket_mod 30) first_100_primes (set first_100_primes) 6 50)) 22 = 2"
proof -
  have "get0 (failure_counts
        (scan_pairs (bucket_mod 30) first_100_primes (set first_100_primes) 6 50)) 22 = 1
   \<and> get0 (anchor_counts
        (scan_pairs (bucket_mod 30) first_100_primes (set first_100_primes) 6 50)) 22 = 2"
    by (simp add: window_eval)
  with failure_count_le_anchor_count
    [of "bucket_mod 30" first_100_primes "set first_100_primes" 3 50 6 22 0 initial_state]
  show ?thesis by simp
qed

section \<open>The keys of the written map\<close>

text \<open>
  C2 as stated (a compound map has exactly 3M keys) fails: the two-axis builder of test-10
  skips the odd residues, so its map for modulus 6 has 9 keys, not 18. Here it is for the
  six pairs from index 54 of the first 100 primes.
\<close>

theorem compound_map_nine_keys_counterexample:
  "run_mod6_gap_analysis 6 54 (Some first_100_primes) =
     Inr [((0, ''Small''), Finite 0), ((0, ''Medium''), Infinity), ((0, ''Large''), Infinity),
          ((2, ''Small''), Finite 0), ((2, ''Medium''), Infinity), ((2, ''Large''), Infinity),
          ((4, ''Small''), Finite 50), ((4, ''Medium''), Infinity), ((4, ''Large''), Infinity)]
   \<and> (case run_mod6_gap_analysis 6 54 (Some first_100_primes) of
         Inl e \<Rightarrow> 0 | Inr d \<Rightarrow> length d) = 9"
  by (simp add: run_mod6_gap_analysis_def load_primes_from_file_def
      length_first_100_primes messiness_scores_v_mod6_gap_eq failure_rate_def Let_def)
     (simp add: window_eval)

text \<open>
  C2, amended. For every modulus M the single-axis map has exactly the M keys
  \<open>0 .. M - 1\<close>, each once, and a key whose bucket has no anchor is given infinity. The
  two-axis map of test-10 (modulus 6) has exactly the 9 keys made of an even residue and a
  gap category; among them a bucket with no anchor is given infinity, and the buckets of
  odd residues are omitted.
\<close>

theorem written_keys_total_or_even:
  "map fst (messiness_scores M s) = [0 .. M - 1] \<and>
   length (messiness_scores M s) = nat M \<and>
   distinct (map fst (messiness_scores M s)) \<and>
   (0 \<le> r \<and> r < M \<and> get0 (anchor_counts s) r = 0 \<longrightarrow>
      map_of (messiness_scores M s) r = Some Infinity) \<and>
   map fst (messiness_scores_v_mod6_gap s2) =
     [(0, ''Small''), (0, ''Medium''), (0, ''Large''),
      (2, ''Small''), (2, ''Medium''), (2, ''Large''),
      (4, ''Small''), (4, ''Medium''), (4, ''Large'')] \<and>
   ((residue, category) \<in> set (map fst (messiness_scores_v_mod6_gap s2)) \<and>
      get0 (anchor_counts s2) (residue, category) = 0 \<longrightarrow>
      map_of (messiness_scores_v_mod6_gap s2) (residue, category) = Some Infinity) \<and>
   (residue mod 2 \<noteq> 0 \<longrightarrow>
      map_of (messiness_scores_v_mod6_gap s2) (residue, category) = None)"
proof -
  have a: "map fst (messiness_scores M s) = [0 .. M - 1]"
    by (simp add: messiness_scores_eq comp_def)
  have b: "length (messiness_scores M s) = nat M"
    by (simp add: messiness_scores_eq)
  have c: "distinct (map fst (messiness_scores M s))"
    by (simp add: a)
  have d: "0 \<le> r \<and> r < M \<and> get0 (anchor_counts s) r = 0 \<longrightarrow>
      map_of (messiness_scores M s) r = Some Infinity"
    by (simp add: map_of_messiness_scores failure_rate_def)
  have e: "map fst (messiness_scores_v_mod6_gap s2) =
     [(0, ''Small''), (0, ''Medium''), (0, ''Large''),
      (2, ''Small''), (2, ''Medium''), (2, ''Large''),
      (4, ''Small''), (4, ''Medium''), (4, ''Large'')]"
    by (simp add: messiness_scores_v_mod6_gap_eq)
  have f: "(residue, category) \<in> set (map fst (messiness_scores_v_mod6_gap s2)) \<and>
      get0 (anchor_counts s2) (residue, category) = 0 \<longrightarrow>
      map_of (messiness_scores_v_mod6_gap s2) (residue, category) = Some Infinity"
    by (auto simp: messiness_scores_v_mod6_gap_eq failure_rate_def)
  have g: "residue mod 2 \<noteq> 0 \<longrightarrow>
      map_of (messiness_scores_v_mod6_gap s2) (residue, category) = None"
    by (auto simp: messiness_scores_v_mod6_gap_eq)
  from a b c d e f g show ?thesis by blast
qed

theorem written_keys_total_or_even_witness:
  "length (messiness_scores 30
      (scan_pairs (bucket_mod 30) first_100_primes (set first_100_primes) 6 50)) = 30 \<and>
   map_of (messiness_scores 30
      (scan_pairs (bucket_mod 30) first_100_primes (set first_100_primes) 6 50)) 1
     = Some Infinity \<and>
   map_of (messiness_scores_v_mod6_gap
      (scan_pairs (bucket_mod_gap 6) first_100_primes (set first_100_primes) 6 54))
      (0, ''Medium'') = Some Infinity \<and>
   map_of (messiness_scores_v_mod6_gap
      (scan_pairs (bucket_mod_gap 6) first_100_primes (set first_100_primes) 6 54))
      (1, ''Small'') = None"
proof -
  have h1: "get0 (anchor_counts
      (scan_pairs (bucket_mod 30) first_100_primes (set first_100_primes) 6 50)) 1 = 0"
    by (simp add: window_eval)
  have h2: "get0 (anchor_counts
      (scan_pairs (bucket_mod_gap 6) first_100_primes (set first_100_primes) 6 54))
      (0, ''Medium'') = 0"
    by (simp add: window_eval)
  from written_keys_total_or_even
    [of 30 "scan_pairs (bucket_mod 30) first_100_primes (set first_100_primes) 6 50" 1
      "scan_pairs (bucket_mod_gap 6) first_100_primes (set first_100_primes) 6 54"
      0 "''Medium''"]
    written_keys_total_or_even
    [of 30 "scan_pairs (bucket_mod 30) first_100_primes (set first_100_primes) 6 50" 1
      "scan_pairs (bucket_mod_gap 6) first_100_primes (set first_100_primes) 6 54"
      1 "''Small''"]
    h1 h2
  show ?thesis by simp
qed

section \<open>The stored rate\<close>




section \<open>Scores of buckets that were never observed\<close>




section \<open>Scoring before the map is loaded\<close>

text \<open>
  C6 as stated (the score operation raises before the map is loaded) fails: with the
  global still \<open>None\<close> the scoring functions return infinity.
\<close>

theorem not_loaded_returns_infinity_counterexample:
  "get_vmod6_score None 7 = Infinity \<and> get_messiness_score_v11_weighted None 7 2 = Infinity"
  by (simp add: get_vmod6_score_def get_messiness_score_v11_weighted_def)

text \<open>
  C6, amended. The score operation never raises for an integer anchor: before the map is
  loaded it returns infinity; once a map is loaded it returns the stored rate of the
  anchor's bucket, and infinity for a bucket the map lacks. The v2.1 engine, whose map is
  part of the module, returns a score for every integer anchor and integer gap.
\<close>

theorem score_never_raises:
  "get_vmod6_score None anchor_sn = Infinity \<and>
   get_messiness_score_v11_weighted None anchor_sn gap_g_n = Infinity \<and>
   (m (anchor_sn mod 6) = None \<longrightarrow> get_vmod6_score (Some m) anchor_sn = Infinity) \<and>
   (m (anchor_sn mod 6) = Some v \<longrightarrow> get_vmod6_score (Some m) anchor_sn = v) \<and>
   (\<exists>sc. get_messiness_score_v2_1 anchor_sn (Some gap_g_n) = Inr sc)"
  using v2_1_total [of anchor_sn gap_g_n]
  by (simp add: get_vmod6_score_def get_messiness_score_v11_weighted_def)

theorem score_never_raises_witness:
  "get_vmod6_score None 12 = Infinity \<and>
   get_vmod6_score (Some [0 \<mapsto> Finite (271 / 100), 2 \<mapsto> Finite (2620 / 100)]) 12
     = Finite (271 / 100) \<and>
   get_vmod6_score (Some [0 \<mapsto> Finite (271 / 100), 2 \<mapsto> Finite (2620 / 100)]) 7
     = Infinity"
  using score_never_raises
    [of 12 6 "[0 \<mapsto> Finite (271 / 100), 2 \<mapsto> Finite (2620 / 100)]" "Finite (271 / 100)"]
    score_never_raises
    [of 7 6 "[0 \<mapsto> Finite (271 / 100), 2 \<mapsto> Finite (2620 / 100)]" "Finite (271 / 100)"]
  by simp

section \<open>Writing the map and reading it back\<close>

text \<open>
  C9. A map written by \<open>json.dump\<close> and read back by \<open>load_engine_data\<close>, which parses
  the string keys to integers, is the map that was written: for every dictionary (its keys
  are distinct), and so for every map the builder produces. A bucket without anchors is
  written as the token \<open>Infinity\<close> under its key and is read back as positive infinity.
\<close>

theorem json_round_trip:
  "(distinct (map fst d) \<longrightarrow> load_engine_data (Some (json_dump d)) = Some d) \<and>
   load_engine_data (Some (json_dump (messiness_scores M s))) = Some (messiness_scores M s) \<and>
   (0 \<le> r \<and> r < M \<and> get0 (anchor_counts s) r = 0 \<longrightarrow>
      map_of (json_dump (messiness_scores M s)) (py_str r) = Some JInfinity \<and>
      map_option (\<lambda>loaded. map_of loaded r)
        (load_engine_data (Some (json_dump (messiness_scores M s)))) = Some (Some Infinity))"
proof -
  have a: "distinct (map fst d) \<longrightarrow> load_engine_data (Some (json_dump d)) = Some d"
    by (simp add: load_engine_data_json_dump)
  have b: "load_engine_data (Some (json_dump (messiness_scores M s)))
             = Some (messiness_scores M s)"
    by (rule load_engine_data_json_dump [OF distinct_messiness_scores])
  have c: "map_of (json_dump (messiness_scores M s)) (py_str r) = Some JInfinity \<and>
      map_option (\<lambda>loaded. map_of loaded r)
        (load_engine_data (Some (json_dump (messiness_scores M s)))) = Some (Some Infinity)"
    if "0 \<le> r \<and> r < M \<and> get0 (anchor_counts s) r = 0"
    using that
    by (simp add: b map_of_json_dump map_of_messiness_scores failure_rate_def
        json_of_float_def)
  from a b c show ?thesis by blast
qed

theorem json_round_trip_witness:
  "json_dump [(0, Finite (271 / 100)), (1, Infinity), (2, Finite 26)]
     = [(''0'', JNumber (271 / 100)), (''1'', JInfinity), (''2'', JNumber 26)] \<and>
   load_engine_data (Some [(''0'', JNumber (271 / 100)), (''1'', JInfinity), (''2'', JNumber 26)])
     = Some [(0, Finite (271 / 100)), (1, Infinity), (2, Finite 26)] \<and>
   map_of (json_dump (messiness_scores 30
      (scan_pairs (bucket_mod 30) first_100_primes (set first_100_primes) 6 50))) ''1''
     = Some JInfinity \<and>
   map_option (\<lambda>loaded. map_of loaded 1)
     (load_engine_data (Some (json_dump (messiness_scores 30
        (scan_pairs (bucket_mod 30) first_100_primes (set first_100_primes) 6 50)))))
     = Some (Some Infinity)"
proof -
  have d: "json_dump [(0, Finite (271 / 100)), (1, Infinity), (2, Finite 26)]
     = [(''0'', JNumber (271 / 100)), (''1'', JInfinity), (''2'', JNumber 26)]"
    by (simp add: json_dump_def py_str_small json_of_float_def)
  have h: "get0 (anchor_counts
      (scan_pairs (bucket_mod 30) first_100_primes (set first_100_primes) 6 50)) 1 = 0"
    by (simp add: window_eval)
  from json_round_trip
    [of "[(0, Finite (271 / 100)), (1, Infinity), (2, Finite 26)]" 30
      "scan_pairs (bucket_mod 30) first_100_primes (set first_100_primes) 6 50" 1]
    h
  show ?thesis unfolding d by (auto simp: py_str_small)
qed

section \<open>Immunity overrides of the v2.1 engine\<close>

text \<open>
  C10. For every anchor divisible by 2310 the v2.1 engine returns 0.0, and for every anchor
  divisible by 210 but not by 2310 it returns 0.0001, whatever the gap argument is (also
  \<open>None\<close>): both tests come before the gap is categorised and before the map is read.
\<close>

theorem immunity_overrides_short_circuit:
  "(anchor_sn mod 2310 = 0 \<longrightarrow> get_messiness_score_v2_1 anchor_sn gap_g_n = Inr (Finite 0)) \<and>
   (anchor_sn mod 210 = 0 \<and> anchor_sn mod 2310 \<noteq> 0 \<longrightarrow>
      get_messiness_score_v2_1 anchor_sn gap_g_n = Inr (Finite (1 / 10000)))"
  by (simp add: get_messiness_score_v2_1_def IMMUNITY_P5_SCORE_def IMMUNITY_P4_SCORE_def)

theorem immunity_overrides_short_circuit_witness:
  "get_messiness_score_v2_1 4620 None = Inr (Finite 0) \<and>
   get_messiness_score_v2_1 4620 (Some 12) = Inr (Finite 0) \<and>
   get_messiness_score_v2_1 420 None = Inr (Finite (1 / 10000)) \<and>
   get_messiness_score_v2_1 420 (Some 30) = Inr (Finite (1 / 10000))"
  using immunity_overrides_short_circuit [of 4620 None]
    immunity_overrides_short_circuit [of 4620 "Some 12"]
    immunity_overrides_short_circuit [of 420 None]
    immunity_overrides_short_circuit [of 420 "Some 30"]
  by simp

end
